theory Spec2Isabelle
  imports Complex_Main
begin

section \<open>Python numbers\<close>

text \<open>
  The bot computes with Python's unbounded integers (\<open>int\<close>) and with floats. A finite
  float is a rational number, so floats are values of type \<open>rat\<close> and every operation
  that produces a float rounds its exact result to the nearest binary64 value, ties to
  even, as IEEE 754 and CPython do. The non-finite floats (\<open>inf\<close>, \<open>nan\<close>) are not
  values of the model: an operation whose rounded result leaves the binary64 range
  raises \<open>OverflowError\<close>, which is what \<open>int / int\<close> does and what \<open>int(x)\<close> does on an
  infinite product.
\<close>

datatype exn =
    OverflowError
  | ZeroDivisionError
  | ValueError
  | TypeError
  | UnboundLocalError
  | IntegrityError
  | DataError
  | DriverError string
  | LibraryError string

text \<open>\<open>n.bit_length()\<close>: the number of binary digits of a positive integer.\<close>

function bit_length :: "int \<Rightarrow> int" where
  "bit_length n = (if n \<le> 0 then 0 else 1 + bit_length (n div 2))"
  by pat_completeness auto
termination
  by (relation "measure nat") auto

declare bit_length.simps [simp del]

definition pow2 :: "int \<Rightarrow> rat" where
  "pow2 k = (if 0 \<le> k then 2 ^ nat k else 1 / 2 ^ nat (- k))"

text \<open>The binary exponent \<open>e\<close> of a non-zero rational: \<open>2^e \<le> |x| < 2^(e+1)\<close>.\<close>

definition exponent_of :: "rat \<Rightarrow> int" where
  "exponent_of x =
     (case quotient_of \<bar>x\<bar> of (n, d) \<Rightarrow>
        let k = bit_length n - bit_length d
        in if pow2 k \<le> \<bar>x\<bar> then k else k - 1)"

definition round_half_even :: "rat \<Rightarrow> int" where
  "round_half_even x =
     (let f = \<lfloor>x\<rfloor>; r = x - of_int f
      in if r < 1 / 2 then f else if 1 / 2 < r then f + 1 else if even f then f else f + 1)"

text \<open>
  Rounding to binary64: 53 significant bits, the spacing of the subnormal range below
  \<open>2^-1022\<close>.
\<close>

definition float_round :: "rat \<Rightarrow> rat" where
  "float_round x =
     (if x = 0 then 0
      else let q = pow2 (max (exponent_of x) (- 1022) - 52)
           in of_int (round_half_even (x / q)) * q)"

definition float_overflows :: "rat \<Rightarrow> bool" where
  "float_overflows x = (pow2 1024 \<le> \<bar>float_round x\<bar>)"

text \<open>\<open>a / b\<close> on two ints: CPython rounds the exact quotient once.\<close>

definition int_truediv :: "int \<Rightarrow> int \<Rightarrow> exn + rat" where
  "int_truediv a b =
     (if b = 0 then Inl ZeroDivisionError
      else if float_overflows (of_int a / of_int b) then Inl OverflowError
      else Inr (float_round (of_int a / of_int b)))"

text \<open>
  \<open>int(x * n)\<close> for a float \<open>x\<close> and an int \<open>n\<close> that is itself a float (the two
  constants the bot multiplies by, \<open>100\<close> and \<open>1_000_000_000\<close>, are): the product is
  rounded, \<open>int\<close> truncates towards zero and raises on an infinite product.
\<close>

definition int_of_float :: "rat \<Rightarrow> int" where
  "int_of_float x = (if 0 \<le> x then \<lfloor>x\<rfloor> else \<lceil>x\<rceil>)"

definition int_of_float_mul :: "rat \<Rightarrow> int \<Rightarrow> exn + int" where
  "int_of_float_mul x n =
     (if float_overflows (x * of_int n) then Inl OverflowError
      else Inr (int_of_float (float_round (x * of_int n))))"

definition LAMPORTS_PER_SOL :: int where
  "LAMPORTS_PER_SOL = 1000000000"

section \<open>The store (database.py)\<close>

text \<open>
  One record per table, with the columns of \<open>_init_sqlite\<close> and \<open>_init_postgres\<close>. A
  nullable column of \<open>users\<close>, \<open>trades\<close> or \<open>positions\<close> is an \<open>option\<close>. The
  surrogate key \<open>id\<close> and the timestamps \<open>created_at\<close> and \<open>updated_at\<close> are left
  out: they are filled in by the engine and only order the listings. A \<open>REAL\<close> column holds the value bound to the statement; the
  engine's own representation of it is not modelled.
\<close>

text \<open>
  A value of Python that is bound to a statement or read from a row of \<open>settings\<close>:
  \<open>None\<close>, an \<open>int\<close>, a \<open>float\<close>, a \<open>bool\<close> or a \<open>str\<close>. The code binds the values
  of the settings dictionary as they come, so a column of \<open>settings\<close> holds any of
  them; an engine that rejects a value makes the \<open>execute\<close> raise, which is the
  driver's to decide (\<open>execute_fails\<close> below).
\<close>

datatype sql_value = SqlNull | SqlInt int | SqlReal rat | SqlBool bool | SqlText string

record user_row =
  u_telegram_id :: int
  u_username :: "string option"
  u_wallet_address :: string
  u_private_key :: string

record settings_row =
  st_telegram_id :: int
  st_slippage :: sql_value
  st_auto_buy_amount :: sql_value
  st_mev_protection :: sql_value
  st_priority_fee :: sql_value

record trade_row =
  t_telegram_id :: int
  t_token_address :: string
  t_trade_type :: string
  t_amount_in :: rat
  t_amount_out :: rat
  t_signature :: "string option"
  t_status :: "string option"

record position_row =
  p_telegram_id :: int
  p_token_address :: string
  p_symbol :: "string option"
  p_name :: "string option"
  p_amount :: rat
  p_entry_price :: "rat option"

record store =
  users :: "user_row list"
  settings :: "settings_row list"
  trades :: "trade_row list"
  positions :: "position_row list"

subsection \<open>The driver and \<open>get_cursor\<close>\<close>

text \<open>
  What the database driver does is an input: which of its calls raise. \<open>execute_fails n\<close>
  says that the \<open>n\<close>-th \<open>cursor.execute\<close> of a transaction raises whatever the
  statement is (a lost connection, a value the engine rejects); constraint violations
  are raised by the statements themselves. \<open>cursor.close()\<close> and \<open>conn.close()\<close>
  do not raise.
\<close>

record driver =
  connect_fails :: bool
  cursor_fails :: bool
  execute_fails :: "nat \<Rightarrow> bool"
  commit_fails :: bool
  rollback_fails :: bool

datatype conn_call = Connect | Cursor | Commit | Rollback | CursorClose | ConnClose

text \<open>
  The result of a \<open>with self.get_cursor() as cursor:\<close> block: the value of the block or
  the exception that leaves it, the store as persisted, and the calls made on the
  connection, in order.
\<close>

record 'a txn =
  outcome :: "exn + 'a"
  persisted :: store
  calls :: "conn_call list"

definition execute :: "driver \<Rightarrow> nat \<Rightarrow> (store \<Rightarrow> exn + store) \<Rightarrow> store \<Rightarrow> exn + store" where
  "execute d n stmt s =
     (if execute_fails d n then Inl (DriverError ''execute'') else stmt s)"

text \<open>
  The \<open>except\<close> clause: \<open>conn.rollback()\<close>, then \<open>raise e\<close>; an exception of the
  rollback replaces \<open>e\<close>.
\<close>

definition reraise :: "driver \<Rightarrow> exn \<Rightarrow> exn" where
  "reraise d e = (if rollback_fails d then DriverError ''rollback'' else e)"

text \<open>
  \<open>_get_connection()\<close> is called before the \<open>try\<close>: when it raises there is no
  connection. \<open>conn.cursor()\<close> is inside the \<open>try\<close>: when it raises, the \<open>except\<close>
  clause rolls back and the \<open>finally\<close> clause starts with \<open>cursor.close()\<close> on a name
  that was never bound, which raises \<open>UnboundLocalError\<close> before \<open>conn.close()\<close> is
  reached. The block works on the transaction's own copy of the store, which is
  persisted by a \<open>commit\<close> that returns and by nothing else.
\<close>

definition get_cursor :: "driver \<Rightarrow> (store \<Rightarrow> exn + 'a \<times> store) \<Rightarrow> store \<Rightarrow> 'a txn" where
  "get_cursor d body s =
     (if connect_fails d then
        \<lparr>outcome = Inl (DriverError ''connect''), persisted = s, calls = [Connect]\<rparr>
      else if cursor_fails d then
        \<lparr>outcome = Inl UnboundLocalError, persisted = s, calls = [Connect, Cursor, Rollback]\<rparr>
      else
        (case body s of
           Inl e \<Rightarrow>
             \<lparr>outcome = Inl (reraise d e), persisted = s,
              calls = [Connect, Cursor, Rollback, CursorClose, ConnClose]\<rparr>
         | Inr (v, s') \<Rightarrow>
             if commit_fails d then
               \<lparr>outcome = Inl (reraise d (DriverError ''commit'')), persisted = s,
                calls = [Connect, Cursor, Commit, Rollback, CursorClose, ConnClose]\<rparr>
             else
               \<lparr>outcome = Inr v, persisted = s',
                calls = [Connect, Cursor, Commit, CursorClose, ConnClose]\<rparr>))"

subsection \<open>Statements\<close>

text \<open>
  \<open>telegram_id\<close> is \<open>UNIQUE\<close> in \<open>users\<close> and in \<open>settings\<close>, and
  \<open>(telegram_id, token_address)\<close> is in \<open>positions\<close>. The foreign keys to
  \<open>users(telegram_id)\<close> are enforced by PostgreSQL; SQLite does not enforce them
  unless asked to, and the code never asks.
\<close>

definition has_user :: "store \<Rightarrow> int \<Rightarrow> bool" where
  "has_user s tid = (\<exists>u \<in> set (users s). u_telegram_id u = tid)"

definition fk_ok :: "bool \<Rightarrow> store \<Rightarrow> int \<Rightarrow> bool" where
  "fk_ok is_postgres s tid = (if is_postgres then has_user s tid else True)"


definition default_settings :: "int \<Rightarrow> settings_row" where
  "default_settings tid =
     \<lparr>st_telegram_id = tid, st_slippage = SqlReal 15, st_auto_buy_amount = SqlReal (1 / 10),
      st_mev_protection = SqlBool True, st_priority_fee = SqlText ''medium''\<rparr>"


definition insert_trade :: "bool \<Rightarrow> trade_row \<Rightarrow> store \<Rightarrow> exn + store" where
  "insert_trade is_postgres row s =
     (if fk_ok is_postgres s (t_telegram_id row) then Inr (s\<lparr>trades := trades s @ [row]\<rparr>)
      else Inl IntegrityError)"

text \<open>
  \<open>INSERT ... ON CONFLICT (telegram_id, token_address) DO UPDATE SET amount = amount +
  excluded.amount\<close>: the row of the key keeps its other columns. The sum is the
  engine's; it is written as the exact sum.
\<close>

definition same_key :: "position_row \<Rightarrow> position_row \<Rightarrow> bool" where
  "same_key a b = (p_telegram_id a = p_telegram_id b \<and> p_token_address a = p_token_address b)"

definition upsert_position :: "bool \<Rightarrow> position_row \<Rightarrow> store \<Rightarrow> exn + store" where
  "upsert_position is_postgres row s =
     (if \<not> fk_ok is_postgres s (p_telegram_id row) then Inl IntegrityError
      else if \<exists>r \<in> set (positions s). same_key r row then
        Inr (s\<lparr>positions :=
               map (\<lambda>r. if same_key r row then r\<lparr>p_amount := p_amount r + p_amount row\<rparr> else r)
                 (positions s)\<rparr>)
      else Inr (s\<lparr>positions := positions s @ [row]\<rparr>))"

definition on_settings :: "int \<Rightarrow> (settings_row \<Rightarrow> settings_row) \<Rightarrow> store \<Rightarrow> store" where
  "on_settings tid f s =
     s\<lparr>settings := map (\<lambda>r. if st_telegram_id r = tid then f r else r) (settings s)\<rparr>"

text \<open>
  \<open>UPDATE settings SET {key} = ? WHERE telegram_id = ?\<close>, which is only built for
  the four keys of the allow-list: the column of that name takes the bound value.
\<close>

definition update_setting :: "string \<Rightarrow> sql_value \<Rightarrow> int \<Rightarrow> store \<Rightarrow> exn + store" where
  "update_setting key v tid s =
     (if key = ''slippage'' then Inr (on_settings tid (\<lambda>r. r\<lparr>st_slippage := v\<rparr>) s)
      else if key = ''auto_buy_amount'' then
        Inr (on_settings tid (\<lambda>r. r\<lparr>st_auto_buy_amount := v\<rparr>) s)
      else if key = ''mev_protection'' then
        Inr (on_settings tid (\<lambda>r. r\<lparr>st_mev_protection := v\<rparr>) s)
      else Inr (on_settings tid (\<lambda>r. r\<lparr>st_priority_fee := v\<rparr>) s))"

subsection \<open>The operations of \<open>Database\<close>\<close>



text \<open>\<open>SELECT * FROM users WHERE telegram_id = ?\<close> and \<open>fetchone()\<close>.\<close>

definition select_user :: "store \<Rightarrow> int \<Rightarrow> user_row option" where
  "select_user s telegram_id = find (\<lambda>u. u_telegram_id u = telegram_id) (users s)"

definition get_user_txn :: "driver \<Rightarrow> store \<Rightarrow> int \<Rightarrow> user_row option txn" where
  "get_user_txn d s telegram_id =
     get_cursor d
       (\<lambda>s0. case execute d 0 Inr s0 of
                Inl e \<Rightarrow> Inl e
              | Inr s1 \<Rightarrow> Inr (select_user s1 telegram_id, s1))
       s"

definition get_user :: "driver \<Rightarrow> store \<Rightarrow> int \<Rightarrow> user_row option \<times> store" where
  "get_user d s telegram_id =
     (let t = get_user_txn d s telegram_id
      in (case outcome t of Inl e \<Rightarrow> None | Inr row \<Rightarrow> row, persisted t))"

text \<open>
  The dictionary \<open>get_settings\<close> returns, as far as the bot reads it: the four
  settings. Without a row, and on any exception, it is the dictionary of defaults.
\<close>

record settings_dict =
  sd_slippage :: sql_value
  sd_auto_buy_amount :: sql_value
  sd_mev_protection :: sql_value
  sd_priority_fee :: sql_value

definition row_to_dict :: "settings_row \<Rightarrow> settings_dict" where
  "row_to_dict r =
     \<lparr>sd_slippage = st_slippage r, sd_auto_buy_amount = st_auto_buy_amount r,
      sd_mev_protection = st_mev_protection r, sd_priority_fee = st_priority_fee r\<rparr>"

definition default_dict :: settings_dict where
  "default_dict =
     \<lparr>sd_slippage = SqlReal 15, sd_auto_buy_amount = SqlReal (1 / 10),
      sd_mev_protection = SqlBool True, sd_priority_fee = SqlText ''medium''\<rparr>"

definition get_settings_txn :: "driver \<Rightarrow> store \<Rightarrow> int \<Rightarrow> settings_dict txn" where
  "get_settings_txn d s telegram_id =
     get_cursor d
       (\<lambda>s0. case execute d 0 Inr s0 of
                Inl e \<Rightarrow> Inl e
              | Inr s1 \<Rightarrow>
                  (case find (\<lambda>r. st_telegram_id r = telegram_id) (settings s1) of
                     Some row \<Rightarrow> Inr (row_to_dict row, s1)
                   | None \<Rightarrow> Inr (default_dict, s1)))
       s"

definition get_settings :: "driver \<Rightarrow> store \<Rightarrow> int \<Rightarrow> settings_dict \<times> store" where
  "get_settings d s telegram_id =
     (let t = get_settings_txn d s telegram_id
      in (case outcome t of Inl e \<Rightarrow> default_dict | Inr dict \<Rightarrow> dict, persisted t))"

definition allowed_keys :: "string list" where
  "allowed_keys = [''slippage'', ''auto_buy_amount'', ''mev_protection'', ''priority_fee'']"

text \<open>
  \<open>for key, value in settings.items()\<close>: the dictionary is the list of its items, in
  order; \<open>n\<close> counts the statements executed so far.
\<close>

fun update_settings_loop ::
  "driver \<Rightarrow> int \<Rightarrow> nat \<Rightarrow> (string \<times> sql_value) list \<Rightarrow> store \<Rightarrow> exn + store" where
  "update_settings_loop d telegram_id n [] s = Inr s"
| "update_settings_loop d telegram_id n ((key, v) # items) s =
     (if key \<in> set allowed_keys then
        (case execute d n (update_setting key v telegram_id) s of
           Inl e \<Rightarrow> Inl e
         | Inr s' \<Rightarrow> update_settings_loop d telegram_id (Suc n) items s')
      else update_settings_loop d telegram_id n items s)"

definition update_settings_txn ::
  "driver \<Rightarrow> store \<Rightarrow> int \<Rightarrow> (string \<times> sql_value) list \<Rightarrow> unit txn" where
  "update_settings_txn d s telegram_id items =
     get_cursor d
       (\<lambda>s0. case update_settings_loop d telegram_id 0 items s0 of
                Inl e \<Rightarrow> Inl e
              | Inr s1 \<Rightarrow> Inr ((), s1))
       s"

definition update_settings ::
  "driver \<Rightarrow> store \<Rightarrow> int \<Rightarrow> (string \<times> sql_value) list \<Rightarrow> bool \<times> store" where
  "update_settings d s telegram_id items =
     (let t = update_settings_txn d s telegram_id items
      in (case outcome t of Inl e \<Rightarrow> False | Inr u \<Rightarrow> True, persisted t))"

definition log_trade_txn ::
  "bool \<Rightarrow> driver \<Rightarrow> store \<Rightarrow> int \<Rightarrow> string \<Rightarrow> string \<Rightarrow> rat \<Rightarrow> rat \<Rightarrow> string \<Rightarrow> unit txn" where
  "log_trade_txn is_postgres d s telegram_id token_address trade_type amount_in amount_out
       signature =
     get_cursor d
       (\<lambda>s0.
          case execute d 0
                 (insert_trade is_postgres
                    \<lparr>t_telegram_id = telegram_id, t_token_address = token_address,
                     t_trade_type = trade_type, t_amount_in = amount_in,
                     t_amount_out = amount_out, t_signature = Some signature,
                     t_status = Some ''completed''\<rparr>) s0 of
            Inl e \<Rightarrow> Inl e
          | Inr s1 \<Rightarrow> Inr ((), s1))
       s"

definition log_trade ::
  "bool \<Rightarrow> driver \<Rightarrow> store \<Rightarrow> int \<Rightarrow> string \<Rightarrow> string \<Rightarrow> rat \<Rightarrow> rat \<Rightarrow> string \<Rightarrow> bool \<times> store" where
  "log_trade is_postgres d s telegram_id token_address trade_type amount_in amount_out
       signature =
     (let t = log_trade_txn is_postgres d s telegram_id token_address trade_type amount_in
                amount_out signature
      in (case outcome t of Inl e \<Rightarrow> False | Inr u \<Rightarrow> True, persisted t))"

definition update_position_txn ::
  "bool \<Rightarrow> driver \<Rightarrow> store \<Rightarrow> int \<Rightarrow> string \<Rightarrow> string \<Rightarrow> string \<Rightarrow> rat \<Rightarrow> rat \<Rightarrow> unit txn" where
  "update_position_txn is_postgres d s telegram_id token_address symbol name amount
       entry_price =
     get_cursor d
       (\<lambda>s0.
          case execute d 0
                 (upsert_position is_postgres
                    \<lparr>p_telegram_id = telegram_id, p_token_address = token_address,
                     p_symbol = Some symbol, p_name = Some name, p_amount = amount,
                     p_entry_price = Some entry_price\<rparr>) s0 of
            Inl e \<Rightarrow> Inl e
          | Inr s1 \<Rightarrow> Inr ((), s1))
       s"

definition update_position ::
  "bool \<Rightarrow> driver \<Rightarrow> store \<Rightarrow> int \<Rightarrow> string \<Rightarrow> string \<Rightarrow> string \<Rightarrow> rat \<Rightarrow> rat \<Rightarrow> bool \<times> store" where
  "update_position is_postgres d s telegram_id token_address symbol name amount entry_price =
     (let t = update_position_txn is_postgres d s telegram_id token_address symbol name
                amount entry_price
      in (case outcome t of Inl e \<Rightarrow> False | Inr u \<Rightarrow> True, persisted t))"

section \<open>The ledger and the aggregator (bot.py, \<open>SolanaTrader\<close>)\<close>

text \<open>
  What the libraries and the network answer is an input, the \<open>world\<close>: each call
  either raises or returns. \<open>keypair_pubkey\<close> is
  \<open>str(Keypair.from_bytes(base58.b58decode(private_key)).pubkey())\<close>. A field read
  with \<open>int(d.get(key, 0))\<close> is absent, an integer literal, or something \<open>int\<close>
  rejects; \<open>int_of_str\<close> is \<open>int\<close> on a string. A token account is its \<open>tokenAmount.amount\<close> field. A quote is opaque but
  for \<open>outAmount\<close>; \<open>priceImpactPct\<close>, which the swap functions return and nobody
  reads, is left out.
\<close>

datatype json_int = Absent | Literal int | Malformed

definition int_or_zero :: "json_int \<Rightarrow> exn + int" where
  "int_or_zero j = (case j of Absent \<Rightarrow> Inr 0 | Literal n \<Rightarrow> Inr n | Malformed \<Rightarrow> Inl ValueError)"

record quote =
  outAmount :: json_int
  route :: string

record quote_params =
  q_inputMint :: string
  q_outputMint :: string
  q_amount :: int
  q_slippageBps :: int

record 'a response =
  status_code :: int
  json :: "exn + 'a"

record world =
  keypair_pubkey :: "string \<Rightarrow> exn + string"
  pubkey_from_string :: "string \<Rightarrow> exn + string"
  rpc_get_balance :: "string \<Rightarrow> exn + int option"
  rpc_token_accounts :: "string \<Rightarrow> string \<Rightarrow> exn + json_int list"
  http_quote :: "quote_params \<Rightarrow> exn + quote response"
  http_swap :: "quote \<Rightarrow> string \<Rightarrow> exn + string option response"
  b64decode :: "string \<Rightarrow> exn + string"
  rpc_send_raw :: "string \<Rightarrow> exn + string"
  int_of_str :: "string \<Rightarrow> exn + int"

text \<open>The calls that go to the network, as they are made.\<close>

datatype call =
    GetBalance string
  | GetTokenAccounts string string
  | QuoteGet quote_params
  | SwapPost quote string
  | SendRaw string

definition SOL_MINT :: string where
  "SOL_MINT = ''So11111111111111111111111111111111111111112''"

text \<open>\<open>get_balance\<close> and \<open>get_token_balance\<close>: the value returned and the calls made.\<close>

definition get_balance :: "world \<Rightarrow> string \<Rightarrow> rat \<times> call list" where
  "get_balance w pubkey =
     (case pubkey_from_string w pubkey of
        Inl e \<Rightarrow> (0, [])
      | Inr pk \<Rightarrow>
          (case rpc_get_balance w pk of
             Inl e \<Rightarrow> (0, [GetBalance pk])
           | Inr None \<Rightarrow> (0, [GetBalance pk])
           | Inr (Some v) \<Rightarrow>
               (case int_truediv v LAMPORTS_PER_SOL of
                  Inl e \<Rightarrow> (0, [GetBalance pk])
                | Inr x \<Rightarrow> (x, [GetBalance pk]))))"

text \<open>The loop over \<open>response.value\<close> returns in its first iteration.\<close>

definition get_token_balance :: "world \<Rightarrow> string \<Rightarrow> string \<Rightarrow> int \<times> call list" where
  "get_token_balance w wallet token_address =
     (case pubkey_from_string w wallet of
        Inl e \<Rightarrow> (0, [])
      | Inr pw \<Rightarrow>
          (case pubkey_from_string w token_address of
             Inl e \<Rightarrow> (0, [])
           | Inr pt \<Rightarrow>
               (case rpc_token_accounts w pw pt of
                  Inl e \<Rightarrow> (0, [GetTokenAccounts pw pt])
                | Inr [] \<Rightarrow> (0, [GetTokenAccounts pw pt])
                | Inr (account # others) \<Rightarrow>
                    (case int_or_zero account of
                       Inl e \<Rightarrow> (0, [GetTokenAccounts pw pt])
                     | Inr n \<Rightarrow> (n, [GetTokenAccounts pw pt])))))"

text \<open>
  A swap function is a sequence of steps inside one \<open>try\<close>. A step ends the function
  with \<open>{"success": False, "error": ...}\<close>, by an early \<open>return\<close> with a message or
  by an exception that the \<open>except\<close> clause turns into \<open>str(e)\<close>, or it goes on with
  a value. The calls made so far are kept.
\<close>

datatype failure = Message string | Raised exn

type_synonym 'a step = "(failure + 'a) \<times> call list"

definition then_step :: "'a step \<Rightarrow> ('a \<Rightarrow> 'b step) \<Rightarrow> 'b step" where
  "then_step m f =
     (case m of
        (Inl e, tr) \<Rightarrow> (Inl e, tr)
      | (Inr v, tr) \<Rightarrow> (case f v of (r, tr') \<Rightarrow> (r, tr @ tr')))"

definition local_step :: "exn + 'a \<Rightarrow> 'a step" where
  "local_step r = (case r of Inl e \<Rightarrow> (Inl (Raised e), []) | Inr v \<Rightarrow> (Inr v, []))"

definition call_step :: "call \<Rightarrow> exn + 'a \<Rightarrow> 'a step" where
  "call_step c r = (case r of Inl e \<Rightarrow> (Inl (Raised e), [c]) | Inr v \<Rightarrow> (Inr v, [c]))"

definition return_error :: "string \<Rightarrow> 'a step" where
  "return_error msg = (Inl (Message msg), [])"

definition return_success :: "'a \<Rightarrow> 'a step" where
  "return_success v = (Inr v, [])"

record ('i, 'o) swap_result =
  r_signature :: string
  r_amount_in :: 'i
  r_amount_out :: 'o

text \<open>
  \<open>int(slippage * 100)\<close> on what \<open>settings.get("slippage", 15)\<close> gave: \<open>None\<close> has no
  product, a \<open>float\<close> is multiplied and truncated, an \<open>int\<close> and a \<open>bool\<close> are
  multiplied as integers, and a \<open>str\<close> is repeated a hundred times and read by
  \<open>int\<close>.
\<close>

definition slippage_bps :: "world \<Rightarrow> sql_value \<Rightarrow> exn + int" where
  "slippage_bps w slippage =
     (case slippage of
        SqlNull \<Rightarrow> Inl TypeError
      | SqlInt i \<Rightarrow> Inr (i * 100)
      | SqlReal x \<Rightarrow> int_of_float_mul x 100
      | SqlBool b \<Rightarrow> Inr (if b then 100 else 0)
      | SqlText t \<Rightarrow> int_of_str w (concat (replicate 100 t)))"

text \<open>
  The tail the two swap functions share word for word: the swap transaction is asked
  for, decoded and sent.
\<close>

definition build_and_submit :: "world \<Rightarrow> quote \<Rightarrow> string \<Rightarrow> string step" where
  "build_and_submit w quote wallet_pubkey =
     then_step (call_step (SwapPost quote wallet_pubkey) (http_swap w quote wallet_pubkey))
       (\<lambda>swap_response.
          if status_code swap_response \<noteq> 200
          then return_error ''Failed to create swap transaction''
          else
            then_step (local_step (json swap_response))
              (\<lambda>swap_transaction.
                 case swap_transaction of
                   None \<Rightarrow> return_error ''No swap transaction returned''
                 | Some tx \<Rightarrow>
                     if tx = [] then return_error ''No swap transaction returned''
                     else
                       then_step (local_step (b64decode w tx))
                         (\<lambda>tx_bytes. call_step (SendRaw tx_bytes) (rpc_send_raw w tx_bytes))))"

definition get_quote :: "world \<Rightarrow> quote_params \<Rightarrow> quote step" where
  "get_quote w params =
     then_step (call_step (QuoteGet params) (http_quote w params))
       (\<lambda>quote_response.
          if status_code quote_response \<noteq> 200 then return_error ''Failed to get quote''
          else local_step (json quote_response))"

definition swap_sol_for_token ::
  "world \<Rightarrow> string \<Rightarrow> string \<Rightarrow> rat \<Rightarrow> sql_value \<Rightarrow> (rat, int) swap_result step" where
  "swap_sol_for_token w private_key token_address amount_sol slippage =
     then_step (local_step (keypair_pubkey w private_key))
       (\<lambda>wallet_pubkey.
     then_step (local_step (int_of_float_mul amount_sol LAMPORTS_PER_SOL))
       (\<lambda>amount_lamports.
     then_step (local_step (slippage_bps w slippage))
       (\<lambda>bps.
     then_step
       (get_quote w
          \<lparr>q_inputMint = SOL_MINT, q_outputMint = token_address, q_amount = amount_lamports,
           q_slippageBps = bps\<rparr>)
       (\<lambda>quote.
     then_step (build_and_submit w quote wallet_pubkey)
       (\<lambda>sig.
     then_step (local_step (int_or_zero (outAmount quote)))
       (\<lambda>out.
          return_success \<lparr>r_signature = sig, r_amount_in = amount_sol, r_amount_out = out\<rparr>))))))"

text \<open>\<open>sell_amount = int(token_balance * percentage / 100)\<close>.\<close>

definition sell_amount :: "int \<Rightarrow> int \<Rightarrow> exn + int" where
  "sell_amount token_balance percentage =
     (case int_truediv (token_balance * percentage) 100 of
        Inl e \<Rightarrow> Inl e
      | Inr x \<Rightarrow> Inr (int_of_float x))"

definition swap_token_for_sol ::
  "world \<Rightarrow> string \<Rightarrow> string \<Rightarrow> int \<Rightarrow> sql_value \<Rightarrow> (int, rat) swap_result step" where
  "swap_token_for_sol w private_key token_address percentage slippage =
     then_step (local_step (keypair_pubkey w private_key))
       (\<lambda>wallet_pubkey.
     then_step
       (case get_token_balance w wallet_pubkey token_address of (n, tr) \<Rightarrow> (Inr n, tr))
       (\<lambda>token_balance.
          if token_balance \<le> 0 then return_error ''No tokens to sell''
          else
     then_step (local_step (sell_amount token_balance percentage))
       (\<lambda>amount_to_sell.
     then_step (local_step (slippage_bps w slippage))
       (\<lambda>bps.
     then_step
       (get_quote w
          \<lparr>q_inputMint = token_address, q_outputMint = SOL_MINT, q_amount = amount_to_sell,
           q_slippageBps = bps\<rparr>)
       (\<lambda>quote.
     then_step (build_and_submit w quote wallet_pubkey)
       (\<lambda>sig.
     then_step (local_step (int_or_zero (outAmount quote)))
       (\<lambda>out.
     then_step (local_step (int_truediv out LAMPORTS_PER_SOL))
       (\<lambda>sol.
          return_success \<lparr>r_signature = sig, r_amount_in = amount_to_sell, r_amount_out = sol\<rparr>))))))))"

section \<open>The handlers (bot.py)\<close>

text \<open>
  Of \<open>handle_callback\<close> the branches \<open>buy_...\<close> and \<open>sell_...\<close> are modelled, of
  \<open>handle_message\<close> the branch that reads a custom amount. The callback data arrives
  decoded: what follows \<open>buy_\<close> is \<open>custom\<close>, a text \<open>float\<close> accepts, or a text it
  rejects; what follows \<open>sell_\<close> is an integer. An amount is a finite float: the
  texts \<open>float\<close> reads as \<open>nan\<close> or \<open>inf\<close> are not modelled. A handler's result is
  the last message shown, the store afterwards, the network calls made, and whether it sets
  \<open>awaiting_custom_amount\<close>. Telegram's own calls do not fail. The handlers make up to
  three store calls, each on a connection of its own: \<open>drv k\<close> is the driver's
  behaviour on the \<open>k\<close>-th.
\<close>

datatype amount_str = Custom | Number rat | NotANumber

datatype callback_data = BuyData amount_str | SellData int

datatype message =
    PleaseStart
  | NoTokenSelected
  | EnterCustomAmount
  | InvalidAmount
  | AmountMustBePositive
  | InsufficientBalance rat rat string
  | BuySuccessful rat string
  | BuyFailed failure
  | SellSuccessful rat string
  | SellFailed failure

record handled =
  reply :: message
  store_after :: store
  network :: "call list"
  awaiting_custom_amount :: bool

definition answer :: "message \<Rightarrow> store \<Rightarrow> call list \<Rightarrow> handled" where
  "answer m s tr = \<lparr>reply = m, store_after = s, network = tr, awaiting_custom_amount = False\<rparr>"

text \<open>
  From \<open># Check balance\<close> to the end of the buy: the same lines in \<open>handle_callback\<close>
  and in \<open>handle_message\<close>.
\<close>

definition execute_buy ::
  "bool \<Rightarrow> (nat \<Rightarrow> driver) \<Rightarrow> world \<Rightarrow> store \<Rightarrow> int \<Rightarrow> user_row \<Rightarrow> string \<Rightarrow> rat \<Rightarrow> handled" where
  "execute_buy is_postgres drv w s user_id user current_token amount =
     (case get_balance w (u_wallet_address user) of
        (balance, tr1) \<Rightarrow>
          if balance < amount
          then answer (InsufficientBalance amount balance (u_wallet_address user)) s tr1
          else
            (case get_settings (drv 1) s user_id of
               (settings_dict, s1) \<Rightarrow>
                 (case swap_sol_for_token w (u_private_key user) current_token amount
                         (sd_slippage settings_dict) of
                    (Inr result, tr2) \<Rightarrow>
                      (case log_trade is_postgres (drv 2) s1 user_id current_token ''BUY''
                              amount (of_int (r_amount_out result)) (r_signature result) of
                         (logged, s2) \<Rightarrow>
                           answer (BuySuccessful amount (r_signature result)) s2 (tr1 @ tr2))
                  | (Inl error, tr2) \<Rightarrow> answer (BuyFailed error) s1 (tr1 @ tr2))))"

definition handle_callback_buy ::
  "bool \<Rightarrow> (nat \<Rightarrow> driver) \<Rightarrow> world \<Rightarrow> store \<Rightarrow> int \<Rightarrow> user_row \<Rightarrow> string option \<Rightarrow>
   amount_str \<Rightarrow> handled" where
  "handle_callback_buy is_postgres drv w s user_id user current_token a =
     (case current_token of
        None \<Rightarrow> answer NoTokenSelected s []
      | Some token \<Rightarrow>
          if token = [] then answer NoTokenSelected s []
          else
            (case a of
               Custom \<Rightarrow> (answer EnterCustomAmount s [])\<lparr>awaiting_custom_amount := True\<rparr>
             | NotANumber \<Rightarrow> answer InvalidAmount s []
             | Number amount \<Rightarrow> execute_buy is_postgres drv w s user_id user token amount))"

definition handle_callback_sell ::
  "bool \<Rightarrow> (nat \<Rightarrow> driver) \<Rightarrow> world \<Rightarrow> store \<Rightarrow> int \<Rightarrow> user_row \<Rightarrow> string option \<Rightarrow>
   int \<Rightarrow> handled" where
  "handle_callback_sell is_postgres drv w s user_id user current_token percentage =
     (case current_token of
        None \<Rightarrow> answer NoTokenSelected s []
      | Some token \<Rightarrow>
          if token = [] then answer NoTokenSelected s []
          else
            (case get_settings (drv 1) s user_id of
               (settings_dict, s1) \<Rightarrow>
                 (case swap_token_for_sol w (u_private_key user) token percentage
                         (sd_slippage settings_dict) of
                    (Inr result, tr) \<Rightarrow>
                      (case log_trade is_postgres (drv 2) s1 user_id token ''SELL''
                              (of_int (r_amount_in result)) (r_amount_out result)
                              (r_signature result) of
                         (logged, s2) \<Rightarrow>
                           answer (SellSuccessful (r_amount_out result) (r_signature result)) s2 tr)
                  | (Inl error, tr) \<Rightarrow> answer (SellFailed error) s1 tr)))"

definition handle_callback ::
  "bool \<Rightarrow> (nat \<Rightarrow> driver) \<Rightarrow> world \<Rightarrow> store \<Rightarrow> int \<Rightarrow> string option \<Rightarrow> callback_data \<Rightarrow>
   handled" where
  "handle_callback is_postgres drv w s user_id current_token data =
     (case get_user (drv 0) s user_id of
        (None, s0) \<Rightarrow> answer PleaseStart s0 []
      | (Some user, s0) \<Rightarrow>
          (case data of
             BuyData a \<Rightarrow> handle_callback_buy is_postgres drv w s0 user_id user current_token a
           | SellData percentage \<Rightarrow>
               handle_callback_sell is_postgres drv w s0 user_id user current_token percentage))"

text \<open>
  \<open>handle_message\<close> while \<open>awaiting_custom_amount\<close> is set: the flag is cleared, and
  set again when the amount has to be typed once more. The text is \<open>float\<close>'s reading
  of it, or not a number.
\<close>

definition handle_message ::
  "bool \<Rightarrow> (nat \<Rightarrow> driver) \<Rightarrow> world \<Rightarrow> store \<Rightarrow> int \<Rightarrow> string option \<Rightarrow> rat option \<Rightarrow> handled" where
  "handle_message is_postgres drv w s user_id current_token text_amount =
     (case current_token of
        None \<Rightarrow> answer NoTokenSelected s []
      | Some token \<Rightarrow>
          if token = [] then answer NoTokenSelected s []
          else
            (case text_amount of
               None \<Rightarrow> (answer InvalidAmount s [])\<lparr>awaiting_custom_amount := True\<rparr>
             | Some amount \<Rightarrow>
                 if amount \<le> 0
                 then (answer AmountMustBePositive s [])\<lparr>awaiting_custom_amount := True\<rparr>
                 else
                   (case get_user (drv 0) s user_id of
                      (None, s0) \<Rightarrow> answer PleaseStart s0 []
                    | (Some user, s0) \<Rightarrow>
                        execute_buy is_postgres drv w s0 user_id user token amount)))"

section \<open>Inputs to run the model on\<close>

definition reliable :: driver where
  "reliable =
     \<lparr>connect_fails = False, cursor_fails = False, execute_fails = (\<lambda>n. False),
      commit_fails = False, rollback_fails = False\<rparr>"


text \<open>The row \<open>create_user\<close> inserts into \<open>users\<close>.\<close>

definition new_user :: "int \<Rightarrow> string \<Rightarrow> string \<Rightarrow> string \<Rightarrow> user_row" where
  "new_user telegram_id username wallet_address private_key =
     \<lparr>u_telegram_id = telegram_id, u_username = Some username,
      u_wallet_address = wallet_address, u_private_key = private_key\<rparr>"

definition alice :: user_row where
  "alice = new_user 7 ''ann'' ''WALLET'' ''KEY''"

definition store1 :: store where
  "store1 = \<lparr>users = [alice], settings = [default_settings 7], trades = [], positions = []\<rparr>"

text \<open>A world in which every call answers, and one in which the ledger cannot be reached.\<close>

definition stub_world :: world where
  "stub_world =
     \<lparr>keypair_pubkey = (\<lambda>k. Inr ''WALLET''),
      pubkey_from_string = Inr,
      rpc_get_balance = (\<lambda>a. Inr (Some 2000000000)),
      rpc_token_accounts = (\<lambda>a m. Inr [Literal 1000]),
      http_quote =
        (\<lambda>p. Inr \<lparr>status_code = 200,
                   json = Inr \<lparr>outAmount =
                                 Literal (if q_inputMint p = SOL_MINT then 500000 else 1000000000),
                               route = ''r''\<rparr>\<rparr>),
      http_swap = (\<lambda>q k. Inr \<lparr>status_code = 200, json = Inr (Some ''dHg='')\<rparr>),
      b64decode = (\<lambda>t. Inr ''tx''),
      rpc_send_raw = (\<lambda>b. Inr ''SIG''),
      int_of_str = (\<lambda>t. Inl ValueError)\<rparr>"

definition offline_world :: world where
  "offline_world =
     stub_world\<lparr>rpc_get_balance := (\<lambda>a. Inl (LibraryError ''timeout'')),
                rpc_token_accounts := (\<lambda>a m. Inl (LibraryError ''timeout''))\<rparr>"

definition empty_wallet_world :: world where
  "empty_wallet_world = stub_world\<lparr>rpc_token_accounts := (\<lambda>a m. Inr [])\<rparr>"

definition no_quote_world :: world where
  "no_quote_world =
     stub_world\<lparr>http_quote := (\<lambda>p. Inr \<lparr>status_code = 500, json = Inl ValueError\<rparr>)\<rparr>"

text \<open>
  The store calls of a handler on a driver that never fails, and on one whose third
  connection, the one of \<open>log_trade\<close>, cannot be opened.
\<close>

definition always_reliable :: "nat \<Rightarrow> driver" where
  "always_reliable k = reliable"

definition trade_log_down :: "nat \<Rightarrow> driver" where
  "trade_log_down k = (if k = 2 then reliable\<lparr>connect_fails := True\<rparr> else reliable)"

definition mint_position :: position_row where
  "mint_position =
     \<lparr>p_telegram_id = 7, p_token_address = ''MINT'', p_symbol = Some ''MNT'',
      p_name = Some ''Mint'', p_amount = 1000, p_entry_price = None\<rparr>"

definition store2 :: store where
  "store2 = store1\<lparr>positions := [mint_position]\<rparr>"

text \<open>The row \<open>log_trade\<close> inserts into \<open>trades\<close>.\<close>

definition new_trade :: "int \<Rightarrow> string \<Rightarrow> string \<Rightarrow> rat \<Rightarrow> rat \<Rightarrow> string \<Rightarrow> trade_row" where
  "new_trade telegram_id token_address trade_type a_in a_out sig =
     \<lparr>t_telegram_id = telegram_id, t_token_address = token_address,
      t_trade_type = trade_type, t_amount_in = a_in, t_amount_out = a_out,
      t_signature = Some sig, t_status = Some ''completed''\<rparr>"

text \<open>The calls of the buy and of the sell that go through.\<close>

definition buy_calls :: "call list" where
  "buy_calls =
     [QuoteGet \<lparr>q_inputMint = SOL_MINT, q_outputMint = ''MINT'', q_amount = 1000000000,
                q_slippageBps = 1500\<rparr>,
      SwapPost \<lparr>outAmount = Literal 500000, route = ''r''\<rparr> ''WALLET'',
      SendRaw ''tx'']"

definition sell_calls :: "call list" where
  "sell_calls =
     [GetTokenAccounts ''WALLET'' ''MINT'',
      QuoteGet \<lparr>q_inputMint = ''MINT'', q_outputMint = SOL_MINT, q_amount = 1000,
                q_slippageBps = 1500\<rparr>,
      SwapPost \<lparr>outAmount = Literal 1000000000, route = ''r''\<rparr> ''WALLET'',
      SendRaw ''tx'']"






text \<open>
  What an update of the settings of \<open>tid\<close> may change: nothing in the other tables,
  no \<open>telegram_id\<close>, no row of another user.
\<close>

definition settings_frame :: "int \<Rightarrow> store \<Rightarrow> store \<Rightarrow> bool" where
  "settings_frame tid s s' =
     (users s' = users s \<and> trades s' = trades s \<and> positions s' = positions s \<and>
      map st_telegram_id (settings s') = map st_telegram_id (settings s) \<and>
      filter (\<lambda>r. st_telegram_id r \<noteq> tid) (settings s') =
        filter (\<lambda>r. st_telegram_id r \<noteq> tid) (settings s))"

section \<open>Transactions\<close>

lemma get_cursor_cases:
  "get_cursor d body s = t \<Longrightarrow>
     (\<exists>e. outcome t = Inl e \<and> persisted t = s) \<or>
     (\<exists>v. outcome t = Inr v \<and> body s = Inr (v, persisted t) \<and> \<not> connect_fails d \<and>
          \<not> cursor_fails d \<and> \<not> commit_fails d)"
  by (auto simp: get_cursor_def split: if_splits sum.splits prod.splits)

lemma get_cursor_commit:
  "\<not> connect_fails d \<Longrightarrow> \<not> cursor_fails d \<Longrightarrow> \<not> commit_fails d \<Longrightarrow> body s = Inr (v, s') \<Longrightarrow>
   get_cursor d body s =
     \<lparr>outcome = Inr v, persisted = s', calls = [Connect, Cursor, Commit, CursorClose, ConnClose]\<rparr>"
  by (simp add: get_cursor_def)

text \<open>
  Once the cursor exists, the block is one transaction and the connection is closed
  last on every path: the commit is attempted exactly when the block returns, and the
  rollback exactly when an exception leaves the block or the commit.
\<close>

lemma get_cursor_released:
  "\<not> cursor_fails d \<Longrightarrow> \<not> connect_fails d \<Longrightarrow>
     last (calls (get_cursor d body s)) = ConnClose \<and>
     (Commit \<in> set (calls (get_cursor d body s)) \<longleftrightarrow> (\<exists>r. body s = Inr r)) \<and>
     (Rollback \<in> set (calls (get_cursor d body s)) \<longleftrightarrow>
        (\<exists>e. outcome (get_cursor d body s) = Inl e))"
  by (auto simp: get_cursor_def split: sum.splits prod.splits)

text \<open>
  Claim C5 (every store operation is one transaction, committed on success and rolled
  back on an exception, and the connection is released on every exit path). The
  transaction part holds, see \<open>get_cursor_cases\<close> and \<open>get_cursor_released\<close>. The
  release does not hold on the path where \<open>conn.cursor()\<close> raises: the connection
  was opened, the rollback runs, and \<open>conn.close()\<close> is never called, whatever the
  block and the store are.
\<close>

theorem get_cursor_unreleased:
  "calls (get_cursor (d\<lparr>connect_fails := False, cursor_fails := True\<rparr>) body s) =
     [Connect, Cursor, Rollback]"
  by (simp add: get_cursor_def)

section \<open>The amount sold\<close>

text \<open>
  Claim C7 (the amount sold is exactly \<open>floor(B * p / 100)\<close>). \<open>token_balance *
  percentage / 100\<close> is a float division, so above \<open>2^53\<close> the quotient is rounded
  before \<open>int\<close> truncates it: a balance of \<open>2^53 + 1\<close> units sold at 100 percent gives
  \<open>2^53\<close>, one unit less than the floor.
\<close>

theorem sell_amount_rounds:
  "sell_amount 9007199254740993 100 = Inr 9007199254740992 \<and>
   (9007199254740993 * 100) div 100 = (9007199254740993 :: int)"
  by code_simp

section \<open>Creating a user\<close>



section \<open>Updating the settings\<close>

lemma on_settings_frame:
  "users (on_settings tid f s) = users s \<and> trades (on_settings tid f s) = trades s \<and>
   positions (on_settings tid f s) = positions s"
  by (simp add: on_settings_def)

lemma update_setting_frame:
  assumes "update_setting key v tid s = Inr s'"
  shows "users s' = users s \<and> trades s' = trades s \<and> positions s' = positions s \<and>
         map st_telegram_id (settings s') = map st_telegram_id (settings s) \<and>
         filter (\<lambda>r. st_telegram_id r \<noteq> tid) (settings s') =
           filter (\<lambda>r. st_telegram_id r \<noteq> tid) (settings s)"
proof -
  have map_eq: "map st_telegram_id (map (\<lambda>r. if st_telegram_id r = tid then f r else r) rs) =
      map st_telegram_id rs" if "\<And>r. st_telegram_id (f r) = st_telegram_id r" for f rs
    using that by (induction rs) auto
  have filter_eq: "filter (\<lambda>r. st_telegram_id r \<noteq> tid)
        (map (\<lambda>r. if st_telegram_id r = tid then f r else r) rs) =
      filter (\<lambda>r. st_telegram_id r \<noteq> tid) rs" if "\<And>r. st_telegram_id (f r) = st_telegram_id r" for f rs
    using that by (induction rs) auto
  show ?thesis
    using assms
    by (auto simp: update_setting_def on_settings_def map_eq filter_eq split: if_splits)
qed

lemma update_settings_loop_frame:
  "update_settings_loop d tid n items s = Inr s' \<Longrightarrow> settings_frame tid s s'"
proof (induction d tid n items s rule: update_settings_loop.induct)
  case (1 d tid n s)
  then show ?case by (simp add: settings_frame_def)
next
  case (2 d tid n key v items s)
  show ?case
  proof (cases "key \<in> set allowed_keys")
    case True
    then obtain s1 where e: "execute d n (update_setting key v tid) s = Inr s1"
      and l: "update_settings_loop d tid (Suc n) items s1 = Inr s'"
      using "2.prems" by (auto split: sum.splits)
    from e have "update_setting key v tid s = Inr s1"
      by (auto simp: execute_def split: if_splits)
    then have "settings_frame tid s s1"
      using update_setting_frame by (simp add: settings_frame_def)
    moreover have "settings_frame tid s1 s'"
      using "2.IH"(1) [OF True e l] .
    ultimately show ?thesis by (simp add: settings_frame_def)
  next
    case False
    then show ?thesis using 2 by simp
  qed
qed

lemma update_settings_loop_filter:
  "update_settings_loop d tid n (filter (\<lambda>(k, v). k \<in> set allowed_keys) items) s =
   update_settings_loop d tid n items s"
  by (induction d tid n items s rule: update_settings_loop.induct) (auto split: sum.splits)

lemma update_settings_loop_ignored:
  "\<forall>k \<in> fst ` set items. k \<notin> set allowed_keys \<Longrightarrow> update_settings_loop d tid n items s = Inr s"
  by (induction d tid n items s rule: update_settings_loop.induct) auto

text \<open>
  Claim C8 (\<open>update_settings\<close> changes only the four fields of the allow-list). The
  items whose key is outside the allow-list have no effect at all: dropping them from
  the dictionary gives the same result and the same store. Whatever the dictionary,
  the update stays within \<open>settings_frame\<close>: the other tables, every \<open>telegram_id\<close>
  and the rows of the other users are as before; with no allow-listed key the store
  is unchanged. This holds for values of any type, which the code binds unchecked.
\<close>

theorem update_settings_allow_list:
  "update_settings d s tid (filter (\<lambda>(k, v). k \<in> set allowed_keys) items) =
     update_settings d s tid items \<and>
   settings_frame tid s (snd (update_settings d s tid items)) \<and>
   ((\<forall>k \<in> fst ` set items. k \<notin> set allowed_keys) \<longrightarrow>
      snd (update_settings d s tid items) = s)"
proof -
  let ?t = "update_settings_txn d s tid items"
  have 1: "update_settings d s tid (filter (\<lambda>(k, v). k \<in> set allowed_keys) items) =
     update_settings d s tid items"
    by (simp add: update_settings_def update_settings_txn_def update_settings_loop_filter)
  have snd: "snd (update_settings d s tid items) = persisted ?t"
    by (simp add: update_settings_def Let_def)
  have 2: "settings_frame tid s (persisted ?t)"
    using get_cursor_cases [OF update_settings_txn_def [of d s tid items, symmetric]]
      update_settings_loop_frame [of d tid 0 items s]
    by (auto simp: settings_frame_def split: sum.splits)
  have 3: "persisted ?t = s" if "\<forall>k \<in> fst ` set items. k \<notin> set allowed_keys"
    using get_cursor_cases [OF update_settings_txn_def [of d s tid items, symmetric]]
      update_settings_loop_ignored [OF that, of d tid 0 s]
    by (auto split: sum.splits)
  show ?thesis using 1 2 3 by (simp add: snd)
qed

theorem update_settings_allow_list_witness:
  "snd (update_settings reliable store1 7
          [(''telegram_id'', SqlInt 99), (''wallet_address'', SqlText ''X'')]) = store1 \<and>
   update_settings reliable store1 7 [(''telegram_id'', SqlInt 99), (''slippage'', SqlInt 5)] =
     (True, store1\<lparr>settings := [(default_settings 7)\<lparr>st_slippage := SqlInt 5\<rparr>]\<rparr>) \<and>
   update_settings reliable store1 7
     [(''slippage'', SqlText ''abc''), (''private_key'', SqlText ''X'')] =
     (True, store1\<lparr>settings := [(default_settings 7)\<lparr>st_slippage := SqlText ''abc''\<rparr>]\<rparr>)"
  using update_settings_allow_list [of reliable store1 7
      "[(''telegram_id'', SqlInt 99), (''wallet_address'', SqlText ''X'')]"]
  by (simp add: update_settings_def update_settings_txn_def get_cursor_def execute_def
      update_setting_def on_settings_def allowed_keys_def reliable_def store1_def
      default_settings_def Let_def)

section \<open>Reading the ledger\<close>

text \<open>
  Claim C9 (\<open>get_balance\<close> and \<open>get_token_balance\<close> are read-only and return zero on
  any lookup failure). When the address does not parse, when the call to the ledger
  raises, when the ledger has no value or no account, when the amount is not an
  integer and when the balance does not fit a float, the number is zero and no
  exception leaves the function. On every path, the successful one included, the
  only call either makes is its own query, \<open>GetBalance\<close> or \<open>GetTokenAccounts\<close>, at
  most once: nothing is sent to the ledger, and there is no store among their
  arguments or results.
\<close>

theorem chain_reader_zero_on_failure:
  "(pubkey_from_string w a = Inl e \<longrightarrow> get_balance w a = (0, [])) \<and>
   (pubkey_from_string w a = Inr pk \<and> rpc_get_balance w pk = Inl e \<longrightarrow>
      get_balance w a = (0, [GetBalance pk])) \<and>
   (pubkey_from_string w a = Inr pk \<and> rpc_get_balance w pk = Inr None \<longrightarrow>
      get_balance w a = (0, [GetBalance pk])) \<and>
   (pubkey_from_string w a = Inl e \<longrightarrow> get_token_balance w a m = (0, [])) \<and>
   (pubkey_from_string w a = Inr pk \<and> pubkey_from_string w m = Inl e \<longrightarrow>
      get_token_balance w a m = (0, [])) \<and>
   (pubkey_from_string w a = Inr pk \<and> pubkey_from_string w m = Inr pm \<and>
    (rpc_token_accounts w pk pm = Inl e \<or> rpc_token_accounts w pk pm = Inr [] \<or>
     (\<exists>others. rpc_token_accounts w pk pm = Inr (Malformed # others))) \<longrightarrow>
      get_token_balance w a m = (0, [GetTokenAccounts pk pm])) \<and>
   (pubkey_from_string w a = Inr pk \<and> rpc_get_balance w pk = Inr (Some v) \<and>
    int_truediv v LAMPORTS_PER_SOL = Inl e \<longrightarrow> get_balance w a = (0, [GetBalance pk])) \<and>
   set (snd (get_balance w a)) \<subseteq> range GetBalance \<and>
   set (snd (get_token_balance w a m)) \<subseteq> range (\<lambda>(x, y). GetTokenAccounts x y) \<and>
   length (snd (get_balance w a)) \<le> 1 \<and> length (snd (get_token_balance w a m)) \<le> 1"
  by (auto simp: get_balance_def get_token_balance_def int_or_zero_def
      split: sum.splits option.splits list.splits)

theorem chain_reader_zero_on_failure_witness:
  "get_balance offline_world ''WALLET'' = (0, [GetBalance ''WALLET'']) \<and>
   get_token_balance offline_world ''WALLET'' ''MINT'' = (0, [GetTokenAccounts ''WALLET'' ''MINT''])"
  using chain_reader_zero_on_failure
    [of offline_world "''WALLET''" "LibraryError ''timeout''" "''WALLET''" "''MINT''" "''MINT''" 0]
  by (simp add: offline_world_def stub_world_def)

section \<open>Numbers of the examples\<close>

lemmas float_eval = int_truediv_def int_of_float_mul_def int_of_float_def LAMPORTS_PER_SOL_def
  float_overflows_def float_round_def exponent_of_def pow2_def round_half_even_def
  bit_length.simps Let_def

lemma LAMPORTS_2: "int_truediv 2000000000 LAMPORTS_PER_SOL = Inr 2"
  by (simp add: float_eval)

lemma LAMPORTS_1: "int_truediv 1000000000 LAMPORTS_PER_SOL = Inr 1"
  by (simp add: float_eval)

lemma lamports_of_1: "int_of_float_mul 1 LAMPORTS_PER_SOL = Inr 1000000000"
  by (simp add: float_eval)

lemma bps_15: "slippage_bps w (SqlReal 15) = Inr 1500"
  by (simp add: slippage_bps_def float_eval)

lemma sell_all_1000: "sell_amount 1000 100 = Inr 1000"
  by (simp add: sell_amount_def float_eval)

section \<open>The store calls of the handlers\<close>

lemma get_user_store: "snd (get_user d s tid) = s"
  by (auto simp: get_user_def get_user_txn_def get_cursor_def execute_def Let_def split: sum.splits)

lemma get_user_Some:
  "get_user d s tid = (Some u, s0) \<Longrightarrow> s0 = s \<and> u \<in> set (users s) \<and> u_telegram_id u = tid"
  by (auto simp: get_user_def get_user_txn_def get_cursor_def execute_def Let_def select_user_def
      find_Some_iff split: sum.splits if_splits)

lemma get_user_positions:
  "get_user d (s\<lparr>positions := ps\<rparr>) tid = (fst (get_user d s tid), s\<lparr>positions := ps\<rparr>)"
  by (auto simp: get_user_def get_user_txn_def get_cursor_def execute_def Let_def select_user_def
      split: sum.splits)

lemma get_settings_store: "snd (get_settings d s tid) = s"
  by (auto simp: get_settings_def get_settings_txn_def get_cursor_def execute_def Let_def
      split: sum.splits option.splits)

lemma get_settings_positions:
  "get_settings d (s\<lparr>positions := ps\<rparr>) tid = (fst (get_settings d s tid), s\<lparr>positions := ps\<rparr>)"
  by (auto simp: get_settings_def get_settings_txn_def get_cursor_def execute_def Let_def
      split: sum.splits option.splits)


lemma log_trade_commits:
  assumes "\<not> connect_fails d" "\<not> cursor_fails d" "\<not> execute_fails d 0" "\<not> commit_fails d"
    and "has_user s tid"
  shows "log_trade pg d s tid tok ty ain aout sg =
     (True, s\<lparr>trades := trades s @ [new_trade tid tok ty ain aout sg]\<rparr>)"
  using assms
  by (simp add: log_trade_def log_trade_txn_def get_cursor_def execute_def insert_trade_def
      fk_ok_def new_trade_def Let_def)

section \<open>The steps of a swap\<close>

lemma then_step_Inr:
  "then_step m f = (Inr v, tr) \<Longrightarrow>
     \<exists>u tr1 tr2. m = (Inr u, tr1) \<and> f u = (Inr v, tr2) \<and> tr = tr1 @ tr2"
  by (auto simp: then_step_def split: prod.splits sum.splits)

lemma then_step_Inl: "m = (Inl e, tr) \<Longrightarrow> then_step m f = (Inl e, tr)"
  by (simp add: then_step_def)

lemma then_step_bind: "m = (Inr u, tr1) \<Longrightarrow> then_step m f = (fst (f u), tr1 @ snd (f u))"
  by (simp add: then_step_def split: prod.splits)

lemma local_step_Inr: "local_step r = (Inr v, tr) \<Longrightarrow> r = Inr v \<and> tr = []"
  by (auto simp: local_step_def split: sum.splits)

lemma call_step_Inr: "call_step c r = (Inr v, tr) \<Longrightarrow> r = Inr v \<and> tr = [c]"
  by (auto simp: call_step_def split: sum.splits)

lemma get_quote_Inr:
  "get_quote w p = (Inr q, tr) \<Longrightarrow>
     \<exists>resp. http_quote w p = Inr resp \<and> status_code resp = 200 \<and> json resp = Inr q \<and>
            tr = [QuoteGet p]"
  by (auto simp: get_quote_def return_error_def dest!: then_step_Inr call_step_Inr local_step_Inr
      split: if_splits)


lemma swap_token_for_sol_Inr:
  assumes "swap_token_for_sol w key token percentage sl = (Inr result, tr)"
  shows "\<exists>wallet n. keypair_pubkey w key = Inr wallet \<and>
           fst (get_token_balance w wallet token) = n \<and> 0 < n \<and>
           sell_amount n percentage = Inr (r_amount_in result)"
  using assms unfolding swap_token_for_sol_def return_success_def return_error_def
  by (auto dest!: then_step_Inr local_step_Inr get_quote_Inr split: prod.splits if_splits)

lemma swap_token_for_sol_no_tokens:
  assumes "keypair_pubkey w key = Inr wallet" and "get_token_balance w wallet token = (n, tr)"
    and "n \<le> 0"
  shows "swap_token_for_sol w key token percentage sl = (Inl (Message ''No tokens to sell''), tr)"
  using assms
  by (simp add: swap_token_for_sol_def then_step_def local_step_def return_error_def)

lemma swap_token_for_sol_bad_key:
  assumes "keypair_pubkey w key = Inl e"
  shows "swap_token_for_sol w key token percentage sl = (Inl (Raised e), [])"
  using assms
  by (simp add: swap_token_for_sol_def then_step_def local_step_def)

lemma get_token_balance_calls:
  "set (snd (get_token_balance w a m)) \<subseteq> range (\<lambda>(x, y). GetTokenAccounts x y) \<and>
   length (snd (get_token_balance w a m)) \<le> 1"
  by (auto simp: get_token_balance_def split: sum.splits list.splits)

lemma get_user_pair: "\<exists>u. get_user d s tid = (u, s)"
  by (metis get_user_store prod.collapse)

lemma get_settings_pair: "\<exists>sd. get_settings d s tid = (sd, s)"
  by (metis get_settings_store prod.collapse)

lemma handle_callback_sell_positions:
  "reply (handle_callback pg drv w (s\<lparr>positions := ps\<rparr>) uid ct (SellData p)) =
     reply (handle_callback pg drv w s uid ct (SellData p)) \<and>
   network (handle_callback pg drv w (s\<lparr>positions := ps\<rparr>) uid ct (SellData p)) =
     network (handle_callback pg drv w s uid ct (SellData p))"
proof -
  obtain u where gu: "get_user (drv 0) s uid = (u, s)"
    using get_user_pair by blast
  obtain sd where gs: "get_settings (drv 1) s uid = (sd, s)"
    using get_settings_pair by blast
  have gu': "get_user (drv 0) (s\<lparr>positions := ps\<rparr>) uid = (u, s\<lparr>positions := ps\<rparr>)"
    using gu by (simp add: get_user_positions)
  have gs': "get_settings (drv 1) (s\<lparr>positions := ps\<rparr>) uid = (sd, s\<lparr>positions := ps\<rparr>)"
    using gs by (simp add: get_settings_positions)
  show ?thesis
    using gu gs gu' gs'
    by (auto simp: handle_callback_def handle_callback_sell_def answer_def
        split: option.splits prod.splits sum.splits)
qed

text \<open>
  Claim C3, amended (a sell reads the token balance from the ledger, not from the
  \<open>positions\<close> table, and with no holdings it fails before any quote, build or
  submit step). For a registered user with a token selected: when the key decodes and
  the balance read from the ledger is not positive, the sell fails with \<open>No tokens to
  sell\<close>, the store is unchanged, and the calls made are those of the balance read,
  at most one \<open>GetTokenAccounts\<close>; when the key does not decode, the sell fails with
  no call at all. Whatever the \<open>positions\<close> table holds, the message and the calls of
  a sell are the same.
\<close>

theorem sell_without_holdings:
  assumes "get_user (drv 0) s uid = (Some user, s0)"
    and "current_token = Some token" and "token \<noteq> []"
  shows "(\<forall>wallet n tr.
            keypair_pubkey w (u_private_key user) = Inr wallet \<and>
            get_token_balance w wallet token = (n, tr) \<and> n \<le> 0 \<longrightarrow>
            handle_callback is_postgres drv w s uid current_token (SellData percentage) =
              answer (SellFailed (Message ''No tokens to sell'')) s tr \<and>
            set tr \<subseteq> range (\<lambda>(x, y). GetTokenAccounts x y) \<and> length tr \<le> 1) \<and>
         (\<forall>e. keypair_pubkey w (u_private_key user) = Inl e \<longrightarrow>
            handle_callback is_postgres drv w s uid current_token (SellData percentage) =
              answer (SellFailed (Raised e)) s []) \<and>
         (\<forall>ps. reply (handle_callback is_postgres drv w (s\<lparr>positions := ps\<rparr>) uid current_token
                        (SellData percentage)) =
               reply (handle_callback is_postgres drv w s uid current_token (SellData percentage)) \<and>
               network (handle_callback is_postgres drv w (s\<lparr>positions := ps\<rparr>) uid
                          current_token (SellData percentage)) =
               network (handle_callback is_postgres drv w s uid current_token
                          (SellData percentage)))"
proof -
  have s0: "s0 = s"
    using get_user_Some [OF assms(1)] by simp
  obtain sd where gs: "get_settings (drv 1) s uid = (sd, s)"
    using get_settings_pair by blast
  have 1: "handle_callback is_postgres drv w s uid current_token (SellData percentage) =
              answer (SellFailed (Message ''No tokens to sell'')) s tr \<and>
            set tr \<subseteq> range (\<lambda>(x, y). GetTokenAccounts x y) \<and> length tr \<le> 1"
    if "keypair_pubkey w (u_private_key user) = Inr wallet"
      and "get_token_balance w wallet token = (n, tr)" and "n \<le> 0" for wallet n tr
    using assms s0 gs swap_token_for_sol_no_tokens [OF that, of percentage "sd_slippage sd"]
      get_token_balance_calls [of w wallet token] that(2)
    by (simp add: handle_callback_def handle_callback_sell_def)
  have 2: "handle_callback is_postgres drv w s uid current_token (SellData percentage) =
              answer (SellFailed (Raised e)) s []"
    if "keypair_pubkey w (u_private_key user) = Inl e" for e
    using assms s0 gs swap_token_for_sol_bad_key [OF that, of token percentage "sd_slippage sd"]
    by (simp add: handle_callback_def handle_callback_sell_def)
  show ?thesis
    using 1 2 handle_callback_sell_positions by blast
qed

section \<open>The examples, evaluated\<close>

lemma get_user_store1: "get_user reliable store1 7 = (Some alice, store1)"
  by (simp add: get_user_def get_user_txn_def get_cursor_def execute_def select_user_def
      reliable_def store1_def alice_def new_user_def Let_def)

lemma get_user_store2: "get_user reliable store2 7 = (Some alice, store2)"
  by (simp add: get_user_def get_user_txn_def get_cursor_def execute_def select_user_def
      reliable_def store1_def store2_def alice_def new_user_def Let_def)

lemma get_settings_store1:
  "get_settings reliable store1 7 = (row_to_dict (default_settings 7), store1)"
  by (simp add: get_settings_def get_settings_txn_def get_cursor_def execute_def
      reliable_def store1_def Let_def default_settings_def)

lemma get_settings_store2:
  "get_settings reliable store2 7 = (row_to_dict (default_settings 7), store2)"
  by (simp add: get_settings_def get_settings_txn_def get_cursor_def execute_def
      reliable_def store1_def store2_def Let_def default_settings_def)

lemma slippage_default: "sd_slippage (row_to_dict (default_settings 7)) = SqlReal 15"
  by (simp add: row_to_dict_def default_settings_def)

lemma get_balance_stub: "get_balance stub_world ''WALLET'' = (2, [GetBalance ''WALLET''])"
  by (simp add: get_balance_def stub_world_def LAMPORTS_2)

lemma get_balance_no_quote: "get_balance no_quote_world ''WALLET'' = (2, [GetBalance ''WALLET''])"
  by (simp add: get_balance_def no_quote_world_def stub_world_def LAMPORTS_2)

lemma swap_buy_stub:
  "swap_sol_for_token stub_world ''KEY'' ''MINT'' 1 (SqlReal 15) =
     (Inr \<lparr>r_signature = ''SIG'', r_amount_in = 1, r_amount_out = 500000\<rparr>, buy_calls)"
  by (simp add: swap_sol_for_token_def get_quote_def build_and_submit_def then_step_def
      local_step_def call_step_def return_success_def int_or_zero_def stub_world_def
      lamports_of_1 bps_15 buy_calls_def)

lemma swap_buy_no_quote:
  "swap_sol_for_token no_quote_world ''KEY'' ''MINT'' 1 (SqlReal 15) =
     (Inl (Message ''Failed to get quote''),
      [QuoteGet \<lparr>q_inputMint = SOL_MINT, q_outputMint = ''MINT'', q_amount = 1000000000,
                 q_slippageBps = 1500\<rparr>])"
  by (simp add: swap_sol_for_token_def get_quote_def then_step_def
      local_step_def call_step_def return_error_def no_quote_world_def stub_world_def
      lamports_of_1 bps_15)

lemma swap_sell_stub:
  "swap_token_for_sol stub_world ''KEY'' ''MINT'' 100 (SqlReal 15) =
     (Inr \<lparr>r_signature = ''SIG'', r_amount_in = 1000, r_amount_out = 1\<rparr>, sell_calls)"
  by (simp add: swap_token_for_sol_def get_quote_def build_and_submit_def then_step_def
      local_step_def call_step_def return_success_def int_or_zero_def stub_world_def
      get_token_balance_def SOL_MINT_def sell_all_1000 bps_15 LAMPORTS_1 sell_calls_def)

lemma get_token_balance_empty:
  "get_token_balance empty_wallet_world ''WALLET'' ''MINT'' = (0, [GetTokenAccounts ''WALLET'' ''MINT''])"
  by (simp add: get_token_balance_def empty_wallet_world_def stub_world_def)

lemma log_trade_down:
  "log_trade pg (reliable\<lparr>connect_fails := True\<rparr>) s tid tok ty ain aout sg = (False, s)"
  by (simp add: log_trade_def log_trade_txn_def get_cursor_def Let_def)

lemma log_trade_reliable_store1:
  "log_trade pg reliable store1 7 tok ty ain aout sg =
     (True, store1\<lparr>trades := [new_trade 7 tok ty ain aout sg]\<rparr>)"
  using log_trade_commits [of reliable store1 7 pg tok ty ain aout sg]
  by (simp add: reliable_def has_user_def store1_def alice_def new_user_def)

lemma log_trade_reliable_store2:
  "log_trade pg reliable store2 7 tok ty ain aout sg =
     (True, store2\<lparr>trades := [new_trade 7 tok ty ain aout sg]\<rparr>)"
  using log_trade_commits [of reliable store2 7 pg tok ty ain aout sg]
  by (simp add: reliable_def has_user_def store1_def store2_def alice_def new_user_def)

lemmas scenario =
  handle_callback_def handle_callback_buy_def handle_callback_sell_def execute_buy_def
  always_reliable_def trade_log_down_def get_user_store1 get_user_store2 get_settings_store1
  get_settings_store2 slippage_default get_balance_stub get_balance_no_quote swap_buy_stub
  swap_buy_no_quote swap_sell_stub log_trade_down log_trade_reliable_store1
  log_trade_reliable_store2


lemma alice_fields: "u_wallet_address alice = ''WALLET''" "u_private_key alice = ''KEY''"
  by (simp_all add: alice_def new_user_def)



section \<open>Selling without holdings\<close>

lemma swap_sell_empty:
  "swap_token_for_sol empty_wallet_world ''KEY'' ''MINT'' 100 sl =
     (Inl (Message ''No tokens to sell''), [GetTokenAccounts ''WALLET'' ''MINT''])"
  by (rule swap_token_for_sol_no_tokens [OF _ get_token_balance_empty])
    (simp_all add: empty_wallet_world_def stub_world_def)

text \<open>
  Claim C3 as stated has the sell fail prior to any network call. The balance read is
  itself a call to the ledger: with an empty wallet the sell fails after one
  \<open>GetTokenAccounts\<close>.
\<close>

theorem sell_no_holdings_calls_ledger:
  "handle_callback True always_reliable empty_wallet_world store1 7 (Some ''MINT'') (SellData 100) =
     answer (SellFailed (Message ''No tokens to sell'')) store1 [GetTokenAccounts ''WALLET'' ''MINT'']"
  by (simp add: scenario alice_fields swap_sell_empty)

theorem sell_without_holdings_witness:
  "handle_callback True always_reliable empty_wallet_world store1 7 (Some ''MINT'') (SellData 25) =
     answer (SellFailed (Message ''No tokens to sell'')) store1 [GetTokenAccounts ''WALLET'' ''MINT'']"
proof -
  have user: "get_user (always_reliable 0) store1 7 = (Some alice, store1)"
    by (simp add: always_reliable_def get_user_store1)
  have key: "keypair_pubkey empty_wallet_world (u_private_key alice) = Inr ''WALLET''"
    by (simp add: empty_wallet_world_def stub_world_def)
  have "keypair_pubkey empty_wallet_world (u_private_key alice) = Inr ''WALLET'' \<and>
      get_token_balance empty_wallet_world ''WALLET'' ''MINT'' =
        (0, [GetTokenAccounts ''WALLET'' ''MINT'']) \<and> (0 :: int) \<le> 0"
    using key get_token_balance_empty by simp
  with sell_without_holdings [where drv = always_reliable and s = store1 and uid = 7
      and user = alice and ?s0.0 = store1 and current_token = "Some ''MINT''"
      and token = "''MINT''" and w = empty_wallet_world and is_postgres = True
      and percentage = 25] user
  show ?thesis
    by blast
qed

section \<open>Buying\<close>

text \<open>
  Claim C6 (a buy for more than the balance fails with the required and the available
  amount and writes nothing). For a registered user with a token selected, when
  \<open>get_balance\<close> gives less than the amount, the button and the typed amount both
  answer \<open>InsufficientBalance\<close> with the amount, the balance and the wallet; the
  store afterwards is the store before, in every table, and the only call made is
  the balance query.
\<close>

theorem buy_insufficient_funds:
  assumes "get_user (drv 0) s uid = (Some user, s0)"
    and "current_token = Some token" and "token \<noteq> []"
    and "get_balance w (u_wallet_address user) = (balance, tr)"
    and "balance < amount"
  shows "handle_callback is_postgres drv w s uid current_token (BuyData (Number amount)) =
           answer (InsufficientBalance amount balance (u_wallet_address user)) s tr \<and>
         (0 < amount \<longrightarrow>
            handle_message is_postgres drv w s uid current_token (Some amount) =
              answer (InsufficientBalance amount balance (u_wallet_address user)) s tr) \<and>
         set tr \<subseteq> range GetBalance"
proof -
  have "set (snd (get_balance w (u_wallet_address user))) \<subseteq> range GetBalance"
    by (auto simp: get_balance_def split: sum.splits option.splits)
  then show ?thesis
    using assms get_user_Some [OF assms(1)]
    by (simp add: handle_callback_def handle_callback_buy_def handle_message_def execute_buy_def)
qed

theorem buy_insufficient_funds_witness:
  "handle_callback True always_reliable stub_world store1 7 (Some ''MINT'') (BuyData (Number 5)) =
     answer (InsufficientBalance 5 2 ''WALLET'') store1 [GetBalance ''WALLET''] \<and>
   handle_message True always_reliable stub_world store1 7 (Some ''MINT'') (Some 5) =
     answer (InsufficientBalance 5 2 ''WALLET'') store1 [GetBalance ''WALLET'']"
  using buy_insufficient_funds [of always_reliable store1 7 alice store1 "Some ''MINT''" "''MINT''"
      stub_world 2 "[GetBalance ''WALLET'']" 5 True]
  by (simp add: always_reliable_def get_user_store1 get_balance_stub alice_fields)



section \<open>The store after a buy or a sell\<close>


















text \<open>
  How each stage fails, and that a failing stage makes the swap return a failure with
  the calls made so far.
\<close>

lemma get_quote_raises:
  "http_quote w p = Inl e \<Longrightarrow> get_quote w p = (Inl (Raised e), [QuoteGet p])"
  by (simp add: get_quote_def then_step_def call_step_def)

lemma get_quote_refused:
  "http_quote w p = Inr resp \<Longrightarrow> status_code resp \<noteq> 200 \<Longrightarrow>
   get_quote w p = (Inl (Message ''Failed to get quote''), [QuoteGet p])"
  by (simp add: get_quote_def then_step_def call_step_def return_error_def)

lemma build_raises:
  "http_swap w q k = Inl e \<Longrightarrow> build_and_submit w q k = (Inl (Raised e), [SwapPost q k])"
  by (simp add: build_and_submit_def then_step_def call_step_def)

lemma build_refused:
  "http_swap w q k = Inr resp \<Longrightarrow> status_code resp \<noteq> 200 \<Longrightarrow>
   build_and_submit w q k =
     (Inl (Message ''Failed to create swap transaction''), [SwapPost q k])"
  by (simp add: build_and_submit_def then_step_def call_step_def return_error_def)

lemma submit_raises:
  "http_swap w q k = Inr resp \<Longrightarrow> status_code resp = 200 \<Longrightarrow> json resp = Inr (Some tx) \<Longrightarrow>
   tx \<noteq> [] \<Longrightarrow> b64decode w tx = Inr bytes \<Longrightarrow> rpc_send_raw w bytes = Inl e \<Longrightarrow>
   build_and_submit w q k = (Inl (Raised e), [SwapPost q k, SendRaw bytes])"
  by (simp add: build_and_submit_def then_step_def call_step_def local_step_def)

text \<open>A buy whose quote, build or submit step fails is a swap that fails, and so is a sell.\<close>

lemma swap_sol_for_token_stage_fails:
  assumes "keypair_pubkey w key = Inr wallet"
    and "int_of_float_mul amount LAMPORTS_PER_SOL = Inr lamports"
    and "slippage_bps w sl = Inr bps"
  shows "get_quote w \<lparr>q_inputMint = SOL_MINT, q_outputMint = token, q_amount = lamports,
                      q_slippageBps = bps\<rparr> = (Inl f, tr) \<Longrightarrow>
         swap_sol_for_token w key token amount sl = (Inl f, tr)"
    and "get_quote w \<lparr>q_inputMint = SOL_MINT, q_outputMint = token, q_amount = lamports,
                      q_slippageBps = bps\<rparr> = (Inr q, tr) \<Longrightarrow>
         build_and_submit w q wallet = (Inl f, tr') \<Longrightarrow>
         swap_sol_for_token w key token amount sl = (Inl f, tr @ tr')"
  using assms
  by (simp_all add: swap_sol_for_token_def then_step_def local_step_def)

lemma swap_token_for_sol_stage_fails:
  assumes "keypair_pubkey w key = Inr wallet"
    and "get_token_balance w wallet token = (n, tr0)" and "0 < n"
    and "sell_amount n percentage = Inr units"
    and "slippage_bps w sl = Inr bps"
  shows "get_quote w \<lparr>q_inputMint = token, q_outputMint = SOL_MINT, q_amount = units,
                      q_slippageBps = bps\<rparr> = (Inl f, tr) \<Longrightarrow>
         swap_token_for_sol w key token percentage sl = (Inl f, tr0 @ tr)"
    and "get_quote w \<lparr>q_inputMint = token, q_outputMint = SOL_MINT, q_amount = units,
                      q_slippageBps = bps\<rparr> = (Inr q, tr) \<Longrightarrow>
         build_and_submit w q wallet = (Inl f, tr') \<Longrightarrow>
         swap_token_for_sol w key token percentage sl = (Inl f, tr0 @ tr @ tr')"
  using assms
  by (simp_all add: swap_token_for_sol_def then_step_def local_step_def)

end
